theory Spec2Isabelle
  imports Main "HOL-Library.Word"
begin

section \<open>Soul Protocol registry: the identity verification core\<close>

text \<open>
  The development embeds the registry server (crypto.ts, db.ts, server.ts, types.ts) and
  the hashing helpers of the example client (agent-self-register.js).

  Library code that is not part of the repository is taken as a parameter:
  \<^item> \<open>sha512\<close>, the digest function of @noble/hashes, bytes to bytes;
  \<^item> \<open>ed_verify\<close>, \<open>ed.verifyAsync\<close> of @noble/ed25519, which returns a boolean or throws;
  \<^item> \<open>parseDate\<close>, \<open>new Date(s).getTime()\<close>, with \<open>None\<close> for an Invalid Date (NaN).

  Server clock readings (\<open>new Date()\<close>) are an explicit argument \<open>now\<close>, in
  milliseconds since the epoch; a timestamp the server renders with \<open>toISOString\<close> is
  kept as that number.
\<close>

type_synonym byte = "8 word"
type_synonym time = int

subsection \<open>Strings and bytes\<close>

text \<open>
  JavaScript strings are modelled as \<open>string\<close>: a list of code units below 256.
  \<open>toLowerCase\<close> (and SQLite's \<open>LOWER\<close>) is modelled on the ASCII letters, the only
  letters the request schemas admit in a name or a DID.
\<close>

definition toLowerCase_char :: "char \<Rightarrow> char" where
  "toLowerCase_char c =
     (if 65 \<le> (of_char c :: nat) \<and> (of_char c :: nat) \<le> 90
      then char_of ((of_char c :: nat) + 32) else c)"

definition toLowerCase :: "string \<Rightarrow> string" where
  "toLowerCase s = map toLowerCase_char s"

definition startsWith :: "string \<Rightarrow> string \<Rightarrow> bool" where
  "startsWith s p = (take (length p) s = p)"

text \<open>\<open>new TextEncoder().encode(s)\<close>: UTF-8 of the code units below 256.\<close>

definition utf8_char :: "char \<Rightarrow> byte list" where
  "utf8_char c =
     (let n = (of_char c :: nat) in
      if n < 128 then [of_nat n]
      else [of_nat (192 + n div 64), of_nat (128 + n mod 64)])"

definition TextEncoder_encode :: "string \<Rightarrow> byte list" where
  "TextEncoder_encode s = concat (map utf8_char s)"

definition hexDigit :: "nat \<Rightarrow> char" where
  "hexDigit n = (if n < 10 then char_of (48 + n) else char_of (87 + n))"

text \<open>\<open>Buffer.from(bytes).toString('hex')\<close>: two lowercase digits per byte.\<close>

definition toHex :: "byte list \<Rightarrow> string" where
  "toHex bs = concat (map (\<lambda>b. [hexDigit (unat b div 16), hexDigit (unat b mod 16)]) bs)"

subsection \<open>JSON values and \<open>JSON.stringify\<close>\<close>

text \<open>
  An object is the list of its own enumerable properties in enumeration order; a
  JavaScript object has each key once. A number is kept as the text that
  \<open>Number.prototype.toString\<close> gives it, which is what \<open>JSON.stringify\<close> writes
  for a finite number.
\<close>

datatype json =
    JNull
  | JBool bool
  | JNum string
  | JStr string
  | JArr "json list"
  | JObj "(string \<times> json) list"

fun join :: "string \<Rightarrow> string list \<Rightarrow> string" where
  "join sep [] = []"
| "join sep [x] = x"
| "join sep (x # y # ys) = x @ sep @ join sep (y # ys)"

text \<open>QuoteJSONString of ECMA-262, on code units below 256.\<close>

definition quoteChar :: "char \<Rightarrow> string" where
  "quoteChar c =
     (let n = (of_char c :: nat) in
      if n = 8 then [CHR 0x5C, CHR ''b'']
      else if n = 9 then [CHR 0x5C, CHR ''t'']
      else if n = 10 then [CHR 0x5C, CHR ''n'']
      else if n = 12 then [CHR 0x5C, CHR ''f'']
      else if n = 13 then [CHR 0x5C, CHR ''r'']
      else if n = 34 then [CHR 0x5C, CHR 0x22]
      else if n = 92 then [CHR 0x5C, CHR 0x5C]
      else if n < 32 then [CHR 0x5C, CHR ''u'', CHR ''0'', CHR ''0'', hexDigit (n div 16), hexDigit (n mod 16)]
      else [c])"

definition quoteJSON :: "string \<Rightarrow> string" where
  "quoteJSON s = [CHR 0x22] @ concat (map quoteChar s) @ [CHR 0x22]"

text \<open>The decimal text of an array index.\<close>

function showNat :: "nat \<Rightarrow> string" where
  "showNat n = (if n < 10 then [char_of (48 + n)] else showNat (n div 10) @ [char_of (48 + n mod 10)])"
  by pat_completeness auto
termination
  by (relation "measure id") auto

text \<open>\<open>JSON.stringify(v)\<close>, no replacer and no indentation.\<close>

fun stringify :: "json \<Rightarrow> string" where
  "stringify JNull = ''null''"
| "stringify (JBool b) = (if b then ''true'' else ''false'')"
| "stringify (JNum n) = n"
| "stringify (JStr s) = quoteJSON s"
| "stringify (JArr xs) = ''['' @ join '','' (map stringify xs) @ '']''"
| "stringify (JObj kvs) =
     ''{'' @ join '','' (map (\<lambda>kv. quoteJSON (fst kv) @ '':'' @ stringify (snd kv)) kvs) @ ''}''"

text \<open>
  \<open>JSON.stringify(v, K)\<close> with an array \<open>K\<close> of strings as replacer. The array is the
  property list of the whole serialisation: every object, at every depth, is written
  with the keys of \<open>K\<close> it has, in the order of \<open>K\<close>, and its other properties are left
  out. Arrays keep all their elements.
\<close>

fun stringifyWith :: "string list \<Rightarrow> json \<Rightarrow> string" where
  "stringifyWith K JNull = ''null''"
| "stringifyWith K (JBool b) = (if b then ''true'' else ''false'')"
| "stringifyWith K (JNum n) = n"
| "stringifyWith K (JStr s) = quoteJSON s"
| "stringifyWith K (JArr xs) = ''['' @ join '','' (map (stringifyWith K) xs) @ '']''"
| "stringifyWith K (JObj kvs) =
     (let members = map (\<lambda>kv. (fst kv, quoteJSON (fst kv) @ '':'' @ stringifyWith K (snd kv))) kvs
      in ''{'' @ join '','' (List.map_filter (map_of members) K) @ ''}'')"

subsection \<open>Array sort and object keys\<close>

text \<open>
  \<open>Array.prototype.sort()\<close> without a comparator orders strings by their code units.
  Keys of an object are distinct, so the sorted array is determined by the order alone
  and an insertion sort computes it.
\<close>

fun str_less :: "string \<Rightarrow> string \<Rightarrow> bool" where
  "str_less [] [] = False"
| "str_less [] (y # ys) = True"
| "str_less (x # xs) [] = False"
| "str_less (x # xs) (y # ys) =
     (if (of_char x :: nat) < of_char y then True
      else if (of_char y :: nat) < of_char x then False
      else str_less xs ys)"

fun insertKey :: "string \<Rightarrow> string list \<Rightarrow> string list" where
  "insertKey k [] = [k]"
| "insertKey k (x # xs) = (if str_less k x then k # x # xs else x # insertKey k xs)"

definition arraySort :: "string list \<Rightarrow> string list" where
  "arraySort ks = foldr insertKey ks []"

text \<open>
  \<open>Object.keys(v)\<close>: the own keys of an object, the indices of an array. The
  parameter type \<open>object\<close> of the callers excludes the other values.
\<close>

fun Object_keys :: "json \<Rightarrow> string list" where
  "Object_keys (JObj kvs) = map fst kvs"
| "Object_keys (JArr xs) = map showNat [0..<length xs]"
| "Object_keys v = []"

text \<open>The property list \<open>JSON.stringify\<close> builds from a replacer array: no key twice.\<close>

definition propertyList :: "string list \<Rightarrow> string list" where
  "propertyList ks = fold (\<lambda>k acc. if k \<in> set acc then acc else acc @ [k]) ks []"

subsection \<open>Hashing a soul document: server (crypto.ts)\<close>

definition canonical :: "json \<Rightarrow> string" where
  "canonical doc = stringifyWith (propertyList (arraySort (Object_keys doc))) doc"

definition hashSoulDocument :: "(byte list \<Rightarrow> byte list) \<Rightarrow> json \<Rightarrow> string" where
  "hashSoulDocument sha512 doc = toHex (sha512 (TextEncoder_encode (canonical doc)))"

subsection \<open>Hashing a soul document: example client (agent-self-register.js)\<close>

text \<open>
  The client builds a new object, assigning the keys in sorted order. An object
  enumerates its array-index keys first, in ascending numeric order, and its other
  keys after them in the order they were created. An array index is the decimal text,
  without a leading zero, of a number up to \<open>2^32 - 2\<close>.
\<close>

definition decimalValue :: "string \<Rightarrow> int" where
  "decimalValue s = foldl (\<lambda>n c. 10 * n + ((of_char c :: int) - 48)) 0 s"

definition isArrayIndex :: "string \<Rightarrow> bool" where
  "isArrayIndex s =
     (case s of
        [] \<Rightarrow> False
      | c # cs \<Rightarrow>
          list_all (\<lambda>d. 48 \<le> (of_char d :: nat) \<and> (of_char d :: nat) \<le> 57) s
          \<and> (c \<noteq> CHR ''0'' \<or> cs = [])
          \<and> decimalValue s < 4294967295)"

fun insertIndex :: "string \<Rightarrow> string list \<Rightarrow> string list" where
  "insertIndex k [] = [k]"
| "insertIndex k (x # xs) =
     (if decimalValue k < decimalValue x then k # x # xs else x # insertIndex k xs)"

definition ownPropertyKeys :: "string list \<Rightarrow> string list" where
  "ownPropertyKeys created =
     foldr insertIndex (filter isArrayIndex created) []
     @ filter (\<lambda>k. \<not> isArrayIndex k) created"

fun sortObjectKeys :: "json \<Rightarrow> json" where
  "sortObjectKeys (JArr xs) = JArr (map sortObjectKeys xs)"
| "sortObjectKeys (JObj kvs) =
     (let vals = map (\<lambda>kv. (fst kv, sortObjectKeys (snd kv))) kvs
      in JObj (List.map_filter (\<lambda>k. map_option (Pair k) (map_of vals k))
                 (ownPropertyKeys (arraySort (map fst kvs)))))"
| "sortObjectKeys v = v"

definition canonical_client :: "json \<Rightarrow> string" where
  "canonical_client doc = stringify (sortObjectKeys doc)"

definition hashSoulDocument_client :: "(byte list \<Rightarrow> byte list) \<Rightarrow> json \<Rightarrow> string" where
  "hashSoulDocument_client sha512 doc = toHex (sha512 (TextEncoder_encode (canonical_client doc)))"

subsection \<open>Data model (types.ts)\<close>

record BirthCertificate =
  timestamp :: string
  operator :: string
  baseModel :: "string option"
  platform :: "string option"
  charterHash :: "string option"

record Contact =
  email :: "string option"
  inbox :: "string option"
  agentmail :: "string option"
  webhook :: "string option"
  protocols :: "string list option"
  preferred :: "string option"

record SoulDocument =
  did :: string
  name :: string
  publicKey :: string
  birth :: BirthCertificate
  avatar :: "string option"
  description :: "string option"
  website :: "string option"
  contact :: "Contact option"

text \<open>
  The object a validated request carries: the schema's keys in the schema's order, an
  optional key present exactly when the field is.
\<close>

definition optField :: "string \<Rightarrow> ('a \<Rightarrow> json) \<Rightarrow> 'a option \<Rightarrow> (string \<times> json) list" where
  "optField k f v = (case v of None \<Rightarrow> [] | Some x \<Rightarrow> [(k, f x)])"

definition birthJson :: "BirthCertificate \<Rightarrow> json" where
  "birthJson b = JObj ([(''timestamp'', JStr (timestamp b)), (''operator'', JStr (operator b))]
     @ optField ''baseModel'' JStr (baseModel b)
     @ optField ''platform'' JStr (platform b)
     @ optField ''charterHash'' JStr (charterHash b))"

definition contactJson :: "Contact \<Rightarrow> json" where
  "contactJson c = JObj (optField ''email'' JStr (email c)
     @ optField ''inbox'' JStr (inbox c)
     @ optField ''agentmail'' JStr (agentmail c)
     @ optField ''webhook'' JStr (webhook c)
     @ optField ''protocols'' (\<lambda>ps. JArr (map JStr ps)) (protocols c)
     @ optField ''preferred'' JStr (preferred c))"

definition soulDocumentJson :: "SoulDocument \<Rightarrow> json" where
  "soulDocumentJson d = JObj ([(''did'', JStr (did d)), (''name'', JStr (name d)),
       (''publicKey'', JStr (publicKey d)), (''birth'', birthJson (birth d))]
     @ optField ''avatar'' JStr (avatar d)
     @ optField ''description'' JStr (description d)
     @ optField ''website'' JStr (website d)
     @ optField ''contact'' contactJson (contact d))"

text \<open>The key sets of the two objects a soul document is made of.\<close>

definition documentKeys :: "string set" where
  "documentKeys = {''did'', ''name'', ''publicKey'', ''birth'', ''avatar'', ''description'',
     ''website'', ''contact''}"

definition birthKeys :: "string set" where
  "birthKeys = {''timestamp'', ''operator'', ''baseModel'', ''platform'', ''charterHash''}"

text \<open>The registration example of the README.\<close>

definition nexusDocument :: SoulDocument where
  "nexusDocument = \<lparr> did = ''did:soul:nexus'', name = ''nexus'', publicKey = ''ab01'',
     birth = \<lparr> timestamp = ''2026-02-01T00:00:00Z'', operator = ''Adam'',
               baseModel = None, platform = Some ''Clawdbot'', charterHash = None \<rparr>,
     avatar = None, description = Some ''A continuity-focused AI partner'',
     website = None, contact = None \<rparr>"

subsection \<open>Signature verification (crypto.ts)\<close>

datatype js_error = Error string

text \<open>\<open>try { body } catch (error) { handler }\<close>\<close>

definition try_catch :: "js_error + 'a \<Rightarrow> (js_error \<Rightarrow> js_error + 'a) \<Rightarrow> js_error + 'a" where
  "try_catch body handler = (case body of Inl e \<Rightarrow> handler e | Inr v \<Rightarrow> Inr v)"

definition hexVal :: "char \<Rightarrow> nat option" where
  "hexVal c =
     (let n = (of_char c :: nat) in
      if 48 \<le> n \<and> n \<le> 57 then Some (n - 48)
      else if 97 \<le> n \<and> n \<le> 102 then Some (n - 87)
      else if 65 \<le> n \<and> n \<le> 70 then Some (n - 55)
      else None)"

text \<open>The test \<open>/^[0-9a-fA-F]+$/.test(input)\<close>.\<close>

definition isHexString :: "string \<Rightarrow> bool" where
  "isHexString s = (s \<noteq> [] \<and> list_all (\<lambda>c. hexVal c \<noteq> None) s)"

text \<open>
  \<open>Buffer.from(input, 'hex')\<close>: one byte per pair of digits; decoding stops at the
  first pair that is not hexadecimal, and a last single digit is dropped.
\<close>

fun Buffer_from_hex :: "string \<Rightarrow> byte list" where
  "Buffer_from_hex (a # b # rest) =
     (case (hexVal a, hexVal b) of
        (Some x, Some y) \<Rightarrow> of_nat (16 * x + y) # Buffer_from_hex rest
      | _ \<Rightarrow> [])"
| "Buffer_from_hex s = []"

definition BASE58_ALPHABET :: string where
  "BASE58_ALPHABET = ''123456789ABCDEFGHJKLMNPQRSTUVWXYZabcdefghijkmnopqrstuvwxyz''"

text \<open>\<open>s.indexOf(c)\<close>, with \<open>None\<close> for \<open>-1\<close>.\<close>

fun indexOf :: "string \<Rightarrow> char \<Rightarrow> nat option" where
  "indexOf [] c = None"
| "indexOf (x # xs) c = (if x = c then Some 0 else map_option Suc (indexOf xs c))"

text \<open>
  The inner \<open>for\<close> loop of \<open>base58Decode\<close>: multiply the little-endian number
  \<open>bytes\<close> by 58 and add the carry; the result is the new array and the carry left over.
  The carry stays far below \<open>2^31\<close>, where \<open>& 0xff\<close> and \<open>>>= 8\<close> are \<open>mod 256\<close> and
  \<open>div 256\<close>.
\<close>

fun base58_mulAdd :: "nat list \<Rightarrow> nat \<Rightarrow> nat list \<times> nat" where
  "base58_mulAdd [] carry = ([], carry)"
| "base58_mulAdd (b # bs) carry =
     (let c = carry + b * 58;
          r = base58_mulAdd bs (c div 256)
      in ((c mod 256) # fst r, snd r))"

text \<open>The \<open>while (carry > 0)\<close> loop: the bytes it pushes.\<close>

function base58_pushCarry :: "nat \<Rightarrow> nat list" where
  "base58_pushCarry carry =
     (if carry > 0 then (carry mod 256) # base58_pushCarry (carry div 256) else [])"
  by pat_completeness auto
termination
  by (relation "measure id") auto

fun base58_loop :: "nat list \<Rightarrow> string \<Rightarrow> js_error + nat list" where
  "base58_loop bytes [] = Inr bytes"
| "base58_loop bytes (c # cs) =
     (case indexOf BASE58_ALPHABET c of
        None \<Rightarrow> Inl (Error (''Invalid base58 character: '' @ [c]))
      | Some v \<Rightarrow>
          (let r = base58_mulAdd bytes v
           in base58_loop (fst r @ base58_pushCarry (snd r)) cs))"

definition base58Decode :: "string \<Rightarrow> js_error + byte list" where
  "base58Decode str =
     (case base58_loop [] str of
        Inl e \<Rightarrow> Inl e
      | Inr bytes \<Rightarrow>
          Inr (map of_nat (rev (bytes @ replicate (length (takeWhile (\<lambda>c. c = CHR ''1'') str)) 0))))"

definition decodeBase58OrHex :: "string \<Rightarrow> js_error + byte list" where
  "decodeBase58OrHex input0 =
     (let input1 = (if startsWith input0 ''z'' then drop 1 input0 else input0);
          input2 = (if startsWith input1 ''0x'' then drop 2 input1 else input1)
      in if isHexString input2 then Inr (Buffer_from_hex input2) else base58Decode input2)"

datatype message = MsgString string | MsgBytes "byte list"

type_synonym ed_verify = "byte list \<Rightarrow> byte list \<Rightarrow> byte list \<Rightarrow> js_error + bool"

definition messageBytes :: "message \<Rightarrow> byte list" where
  "messageBytes msg = (case msg of MsgString s \<Rightarrow> TextEncoder_encode s | MsgBytes bs \<Rightarrow> bs)"

text \<open>The body of the \<open>try\<close> block of \<open>verifySignature\<close>.\<close>

definition verifySignature_try :: "ed_verify \<Rightarrow> message \<Rightarrow> string \<Rightarrow> string \<Rightarrow> js_error + bool" where
  "verifySignature_try ed_verify msg signature pubKey =
     (let msgBytes = messageBytes msg
      in case decodeBase58OrHex signature of
           Inl e \<Rightarrow> Inl e
         | Inr sigBytes \<Rightarrow>
             (case decodeBase58OrHex pubKey of
                Inl e \<Rightarrow> Inl e
              | Inr pubKeyBytes \<Rightarrow> ed_verify sigBytes msgBytes pubKeyBytes))"

definition verifySignature :: "ed_verify \<Rightarrow> message \<Rightarrow> string \<Rightarrow> string \<Rightarrow> js_error + bool" where
  "verifySignature ed_verify msg signature pubKey =
     try_catch (verifySignature_try ed_verify msg signature pubKey) (\<lambda>error. Inr False)"

subsection \<open>Records of the store (types.ts, db.ts)\<close>

datatype SoulStatus = active | suspended | revoked

text \<open>
  \<open>NewSoul\<close> is \<open>Omit<SoulRecord, '_registryId' | '_version'>\<close>, the argument of
  \<open>createSoul\<close>; \<open>SoulRecord\<close> adds the two fields the store assigns.
\<close>

record NewSoul = SoulDocument +
  capabilities :: "string list option"
  riskLevel :: "string option"
  status :: SoulStatus
  statusReason :: "string option"
  statusChangedAt :: "time option"
  registeredAt :: time
  lastVerifiedAt :: "time option"
  verificationCount :: int

record SoulRecord = NewSoul +
  registryId :: nat
  version :: int

datatype ChallengeStatus = pending | completed | expired

record Challenge =
  challengeId :: string
  challengeDid :: string
  nonce :: string
  issuedAt :: time
  expiresAt :: time
  challengeStatus :: ChallengeStatus

text \<open>
  The store: the path it is saved under (\<open>:memory:\<close> for none) and the two tables, one
  row per soul and one row per challenge, in insertion order.
\<close>

record RegistryDB =
  dbPath :: string
  souls :: "SoulRecord list"
  challenges :: "Challenge list"

subsection \<open>Soul operations (db.ts)\<close>

text \<open>
  \<open>save()\<close> exports the database to its file unless the path is \<open>:memory:\<close>. For an
  export sql.js closes the database and opens it again, and on the new connection
  \<open>last_insert_rowid()\<close> and \<open>getRowsModified()\<close> read 0.
\<close>

definition savedToFile :: "RegistryDB \<Rightarrow> bool" where
  "savedToFile db = (dbPath db \<noteq> '':memory:'')"

text \<open>\<open>s || null\<close> on writing and \<open>s || undefined\<close> on reading: the empty string is falsy.\<close>

definition orNull :: "string option \<Rightarrow> string option" where
  "orNull v = (case v of None \<Rightarrow> None | Some s \<Rightarrow> if s = [] then None else Some s)"

definition rowToSoul :: "SoulRecord \<Rightarrow> SoulRecord" where
  "rowToSoul row = row
     \<lparr> birth := (birth row)
         \<lparr> baseModel := orNull (baseModel (birth row)),
           platform := orNull (platform (birth row)),
           charterHash := orNull (charterHash (birth row)) \<rparr>,
       avatar := orNull (avatar row),
       description := orNull (description row),
       website := orNull (website row),
       riskLevel := orNull (riskLevel row),
       statusReason := orNull (statusReason row) \<rparr>"

text \<open>
  The \<open>INSERT\<close> of \<open>createSoul\<close>. The table declares \<open>did\<close> unique and \<open>name\<close> unique
  without regard to ASCII case; a row that breaks either makes \<open>db.run\<close> throw. The
  columns the statement does not name take their defaults: no status reason, no status
  change, no last verification, version 1, the next row id. The id the function returns
  is read after \<open>save()\<close>.
\<close>

definition createSoul :: "RegistryDB \<Rightarrow> NewSoul \<Rightarrow> js_error + (RegistryDB \<times> SoulRecord)" where
  "createSoul db soul =
     (if \<exists>r \<in> set (souls db). did r = did soul \<or> toLowerCase (name r) = toLowerCase (name soul)
      then Inl (Error ''UNIQUE constraint failed'')
      else
        (let rowid = Suc (foldr max (map registryId (souls db)) 0);
             lastId = (if savedToFile db then 0 else rowid);
             row = \<lparr> did = did soul, name = name soul, publicKey = publicKey soul,
                     birth = (birth soul)
                       \<lparr> baseModel := orNull (baseModel (birth soul)),
                         platform := orNull (platform (birth soul)),
                         charterHash := orNull (charterHash (birth soul)) \<rparr>,
                     avatar = orNull (avatar soul),
                     description = orNull (description soul),
                     website = orNull (website soul),
                     contact = contact soul,
                     capabilities = capabilities soul,
                     riskLevel = orNull (riskLevel soul),
                     status = status soul,
                     statusReason = None,
                     statusChangedAt = None,
                     registeredAt = registeredAt soul,
                     lastVerifiedAt = None,
                     verificationCount = verificationCount soul,
                     registryId = rowid,
                     version = 1 \<rparr>
         in Inr (db \<lparr> souls := souls db @ [row] \<rparr>,
                 NewSoul.extend soul \<lparr> registryId = lastId, version = 1 \<rparr>)))"

definition getSoulByDid :: "RegistryDB \<Rightarrow> string \<Rightarrow> SoulRecord option" where
  "getSoulByDid db d = map_option rowToSoul (find (\<lambda>r. did r = d) (souls db))"

definition getSoulByName :: "RegistryDB \<Rightarrow> string \<Rightarrow> SoulRecord option" where
  "getSoulByName db n =
     map_option rowToSoul (find (\<lambda>r. toLowerCase (name r) = toLowerCase n) (souls db))"

text \<open>
  Each \<open>UPDATE\<close> changes every row the \<open>WHERE\<close> clause selects. The boolean it
  returns is \<open>getRowsModified() > 0\<close>, read after \<open>save()\<close>.
\<close>

definition updateSoulStatus :: "time \<Rightarrow> RegistryDB \<Rightarrow> string \<Rightarrow> SoulStatus \<Rightarrow> string \<Rightarrow> bool \<times> RegistryDB" where
  "updateSoulStatus now db d st reason =
     (\<not> savedToFile db \<and> (\<exists>r \<in> set (souls db). did r = d),
      db \<lparr> souls := map (\<lambda>r. if did r = d
                then r \<lparr> status := st, statusReason := Some reason,
                         statusChangedAt := Some now, version := version r + 1 \<rparr>
                else r) (souls db) \<rparr>)"

definition incrementVerificationCount :: "time \<Rightarrow> RegistryDB \<Rightarrow> string \<Rightarrow> RegistryDB" where
  "incrementVerificationCount now db d =
     db \<lparr> souls := map (\<lambda>r. if did r = d
               then r \<lparr> verificationCount := verificationCount r + 1,
                        lastVerifiedAt := Some now \<rparr>
               else r) (souls db) \<rparr>"

definition updateSoulContact :: "RegistryDB \<Rightarrow> string \<Rightarrow> Contact \<Rightarrow> bool \<times> RegistryDB" where
  "updateSoulContact db d c =
     (\<not> savedToFile db \<and> (\<exists>r \<in> set (souls db). did r = d),
      db \<lparr> souls := map (\<lambda>r. if did r = d
                then r \<lparr> contact := Some c, version := version r + 1 \<rparr>
                else r) (souls db) \<rparr>)"

definition updateSoulCapabilities :: "RegistryDB \<Rightarrow> string \<Rightarrow> string list \<Rightarrow> string option \<Rightarrow> bool \<times> RegistryDB" where
  "updateSoulCapabilities db d caps risk =
     (\<not> savedToFile db \<and> (\<exists>r \<in> set (souls db). did r = d),
      db \<lparr> souls := map (\<lambda>r. if did r = d
                then r \<lparr> capabilities := Some caps, riskLevel := orNull risk,
                         version := version r + 1 \<rparr>
                else r) (souls db) \<rparr>)"

subsection \<open>Challenge operations (db.ts)\<close>

text \<open>The \<open>INSERT\<close> of \<open>createChallenge\<close>: \<open>id\<close> is the primary key.\<close>

definition createChallenge :: "RegistryDB \<Rightarrow> Challenge \<Rightarrow> js_error + RegistryDB" where
  "createChallenge db ch =
     (if \<exists>c \<in> set (challenges db). challengeId c = challengeId ch
      then Inl (Error ''UNIQUE constraint failed'')
      else Inr (db \<lparr> challenges := challenges db @ [ch] \<rparr>))"

definition getChallenge :: "RegistryDB \<Rightarrow> string \<Rightarrow> Challenge option" where
  "getChallenge db cid = find (\<lambda>c. challengeId c = cid) (challenges db)"

definition updateChallengeStatus :: "RegistryDB \<Rightarrow> string \<Rightarrow> ChallengeStatus \<Rightarrow> RegistryDB" where
  "updateChallengeStatus db cid st =
     db \<lparr> challenges := map (\<lambda>c. if challengeId c = cid then c \<lparr> challengeStatus := st \<rparr> else c)
                            (challenges db) \<rparr>"

text \<open>
  The \<open>DELETE\<close> of \<open>cleanExpiredChallenges\<close> compares two texts:
  \<open>expires_at\<close>, written by \<open>toISOString\<close> as \<open>YYYY-MM-DDTHH:MM:SS.sssZ\<close>, and
  \<open>datetime('now')\<close>, which SQLite writes as \<open>YYYY-MM-DD HH:MM:SS\<close>. The ten
  characters of the date decide when they differ; on the same date the eleventh
  character decides, and \<open>T\<close> is above the space. So \<open>expires_at < datetime('now')\<close>
  holds exactly when the UTC day of expiry is before the current UTC day.
\<close>

definition sqlExpiresBefore :: "time \<Rightarrow> time \<Rightarrow> bool" where
  "sqlExpiresBefore e now = (e div 86400000 < now div 86400000)"

definition cleanExpiredChallenges :: "time \<Rightarrow> RegistryDB \<Rightarrow> nat \<times> RegistryDB" where
  "cleanExpiredChallenges now db =
     (let gone = (\<lambda>c. sqlExpiresBefore (expiresAt c) now \<and> challengeStatus c = pending)
      in (length (filter gone (challenges db)),
          db \<lparr> challenges := filter (\<lambda>c. \<not> gone c) (challenges db) \<rparr>))"

subsection \<open>Request handlers (server.ts)\<close>

text \<open>
  A handler takes the store and the validated request and returns the response with the
  store it leaves. The \<open>code\<close> of an error response is an \<open>error_code\<close>; a handler's
  own \<open>catch\<close> answers \<open>INTERNAL_ERROR\<close>.
\<close>

datatype error_code =
    DID_MISMATCH
  | NAME_TAKEN
  | INVALID_SIGNATURE
  | INTERNAL_ERROR
  | NOT_FOUND
  | TIMESTAMP_EXPIRED
  | CHALLENGE_NOT_FOUND
  | CHALLENGE_EXPIRED
  | CHALLENGE_USED

datatype success =
    Registered string time
  | ContactUpdated string Contact time
  | CapabilitiesUpdated string "string list" "string option" time
  | ChallengeIssued string string time
  | Verified string time
  | StatusChanged string SoulStatus time

type_synonym response = "error_code + success"

text \<open>The lookup every handler does: a DID when the reference starts with \<open>did:soul:\<close>, else a name.\<close>

definition resolveSoul :: "RegistryDB \<Rightarrow> string \<Rightarrow> SoulRecord option" where
  "resolveSoul db didOrName =
     (if startsWith didOrName ''did:soul:'' then getSoulByDid db didOrName
      else getSoulByName db didOrName)"

text \<open>\<open>a < b\<close> on two dates compares their time values; with an Invalid Date it is false.\<close>

definition date_less :: "time option \<Rightarrow> time \<Rightarrow> bool" where
  "date_less a b = (case a of None \<Rightarrow> False | Some t \<Rightarrow> t < b)"

text \<open>\<open>POST /v1/souls/register\<close>\<close>

definition post_register ::
  "(byte list \<Rightarrow> byte list) \<Rightarrow> ed_verify \<Rightarrow> time \<Rightarrow> RegistryDB \<Rightarrow> SoulDocument \<Rightarrow> string
     \<Rightarrow> response \<times> RegistryDB" where
  "post_register sha512 ed_verify now db soulDocument signature =
     (let expectedDid = ''did:soul:'' @ toLowerCase (name soulDocument)
      in if toLowerCase (did soulDocument) \<noteq> expectedDid then (Inl DID_MISMATCH, db)
      else
        (case getSoulByName db (name soulDocument) of
           Some existing \<Rightarrow> (Inl NAME_TAKEN, db)
         | None \<Rightarrow>
             (let docHash = hashSoulDocument sha512 (soulDocumentJson soulDocument)
              in case verifySignature ed_verify (MsgString docHash) signature (publicKey soulDocument) of
                   Inl e \<Rightarrow> (Inl INTERNAL_ERROR, db)
                 | Inr validSignature \<Rightarrow>
                     if \<not> validSignature then (Inl INVALID_SIGNATURE, db)
                     else
                       (case createSoul db (SoulDocument.extend soulDocument
                               \<lparr> capabilities = None, riskLevel = None, status = active,
                                 statusReason = None, statusChangedAt = None,
                                 registeredAt = now, lastVerifiedAt = None,
                                 verificationCount = 0 \<rparr>) of
                          Inl e \<Rightarrow> (Inl INTERNAL_ERROR, db)
                        | Inr (db', soul) \<Rightarrow> (Inr (Registered (did soul) (registeredAt soul)), db')))))"

text \<open>\<open>PUT /v1/souls/:didOrName/contact\<close>\<close>

definition put_contact ::
  "ed_verify \<Rightarrow> (string \<Rightarrow> time option) \<Rightarrow> time \<Rightarrow> RegistryDB \<Rightarrow> string \<Rightarrow> Contact \<Rightarrow> string \<Rightarrow> string
     \<Rightarrow> response \<times> RegistryDB" where
  "put_contact ed_verify parseDate now db didOrName newContact signature ts =
     (case resolveSoul db didOrName of
        None \<Rightarrow> (Inl NOT_FOUND, db)
      | Some soul \<Rightarrow>
          (let fiveMinutesAgo = now - 5 * 60 * 1000
           in if date_less (parseDate ts) fiveMinutesAgo then (Inl TIMESTAMP_EXPIRED, db)
           else
             (let msg = ''contact-update:'' @ did soul @ '':'' @ ts
              in case verifySignature ed_verify (MsgString msg) signature (publicKey soul) of
                   Inl e \<Rightarrow> (Inl INTERNAL_ERROR, db)
                 | Inr validSignature \<Rightarrow>
                     if \<not> validSignature then (Inl INVALID_SIGNATURE, db)
                     else (Inr (ContactUpdated (did soul) newContact now),
                           snd (updateSoulContact db (did soul) newContact)))))"

text \<open>\<open>PUT /v1/souls/:didOrName/capabilities\<close>\<close>

definition put_capabilities ::
  "ed_verify \<Rightarrow> (string \<Rightarrow> time option) \<Rightarrow> time \<Rightarrow> RegistryDB \<Rightarrow> string \<Rightarrow> string list \<Rightarrow> string option
     \<Rightarrow> string \<Rightarrow> string \<Rightarrow> response \<times> RegistryDB" where
  "put_capabilities ed_verify parseDate now db didOrName caps risk signature ts =
     (case resolveSoul db didOrName of
        None \<Rightarrow> (Inl NOT_FOUND, db)
      | Some soul \<Rightarrow>
          (let fiveMinutesAgo = now - 5 * 60 * 1000
           in if date_less (parseDate ts) fiveMinutesAgo then (Inl TIMESTAMP_EXPIRED, db)
           else
             (let msg = ''capabilities-update:'' @ did soul @ '':'' @ ts
              in case verifySignature ed_verify (MsgString msg) signature (publicKey soul) of
                   Inl e \<Rightarrow> (Inl INTERNAL_ERROR, db)
                 | Inr validSignature \<Rightarrow>
                     if \<not> validSignature then (Inl INVALID_SIGNATURE, db)
                     else (Inr (CapabilitiesUpdated (did soul) caps (orNull risk) now),
                           snd (updateSoulCapabilities db (did soul) caps risk)))))"

text \<open>
  \<open>POST /v1/souls/:didOrName/challenge\<close>. The two random values
  (\<open>generateChallengeId\<close>, \<open>generateNonce\<close>) are arguments. This handler has no
  \<open>catch\<close> of its own: an \<open>INSERT\<close> that throws reaches the framework, which answers
  with status 500 and writes nothing; that answer is \<open>INTERNAL_ERROR\<close> here.
\<close>

definition post_challenge ::
  "time \<Rightarrow> RegistryDB \<Rightarrow> string \<Rightarrow> string \<Rightarrow> string \<Rightarrow> response \<times> RegistryDB" where
  "post_challenge now db didOrName cid newNonce =
     (case resolveSoul db didOrName of
        None \<Rightarrow> (Inl NOT_FOUND, db)
      | Some soul \<Rightarrow>
          (let expires = now + 5 * 60 * 1000
           in case createChallenge db
                     \<lparr> challengeId = cid, challengeDid = did soul, nonce = newNonce,
                       issuedAt = now, expiresAt = expires, challengeStatus = pending \<rparr> of
                Inl e \<Rightarrow> (Inl INTERNAL_ERROR, db)
              | Inr db' \<Rightarrow> (Inr (ChallengeIssued cid newNonce expires), db')))"

text \<open>\<open>POST /v1/souls/:didOrName/verify\<close>\<close>

definition post_verify ::
  "ed_verify \<Rightarrow> time \<Rightarrow> RegistryDB \<Rightarrow> string \<Rightarrow> string \<Rightarrow> string \<Rightarrow> response \<times> RegistryDB" where
  "post_verify ed_verify now db didOrName cid signature =
     (case getChallenge db cid of
        None \<Rightarrow> (Inl CHALLENGE_NOT_FOUND, db)
      | Some challenge \<Rightarrow>
          if expiresAt challenge < now
          then (Inl CHALLENGE_EXPIRED, updateChallengeStatus db cid expired)
          else if challengeStatus challenge \<noteq> pending then (Inl CHALLENGE_USED, db)
          else
            (case resolveSoul db didOrName of
               None \<Rightarrow> (Inl NOT_FOUND, db)
             | Some soul \<Rightarrow>
                 if challengeDid challenge \<noteq> did soul then (Inl DID_MISMATCH, db)
                 else
                   (case verifySignature ed_verify (MsgString (nonce challenge)) signature (publicKey soul) of
                      Inl e \<Rightarrow> (Inl INTERNAL_ERROR, db)
                    | Inr validSignature \<Rightarrow>
                        if \<not> validSignature then (Inl INVALID_SIGNATURE, db)
                        else (Inr (Verified (did soul) now),
                              incrementVerificationCount now
                                (updateChallengeStatus db cid completed) (did soul)))))"

text \<open>\<open>updateStatus\<close>, behind \<open>suspend\<close>, \<open>revoke\<close> and \<open>reactivate\<close>.\<close>

definition statusName :: "SoulStatus \<Rightarrow> string" where
  "statusName st = (case st of active \<Rightarrow> ''active'' | suspended \<Rightarrow> ''suspended'' | revoked \<Rightarrow> ''revoked'')"

definition updateStatus ::
  "ed_verify \<Rightarrow> time \<Rightarrow> RegistryDB \<Rightarrow> string \<Rightarrow> SoulStatus \<Rightarrow> string \<Rightarrow> string
     \<Rightarrow> response \<times> RegistryDB" where
  "updateStatus ed_verify now db didOrName newStatus reason signature =
     (case resolveSoul db didOrName of
        None \<Rightarrow> (Inl NOT_FOUND, db)
      | Some soul \<Rightarrow>
          (let msg = statusName newStatus @ '':'' @ did soul @ '':'' @ reason
           in case verifySignature ed_verify (MsgString msg) signature (publicKey soul) of
                Inl e \<Rightarrow> (Inl INTERNAL_ERROR, db)
              | Inr validSignature \<Rightarrow>
                  if \<not> validSignature then (Inl INVALID_SIGNATURE, db)
                  else (Inr (StatusChanged (did soul) newStatus now),
                        snd (updateSoulStatus now db (did soul) newStatus reason))))"

text \<open>
  The requests and the periodic sweep as operations, each with the clock reading it is
  served at, and the store after a sequence of them.
\<close>

datatype operation =
    Register time SoulDocument string
  | PutContact time string Contact string string
  | PutCapabilities time string "string list" "string option" string string
  | IssueChallenge time string string string
  | Verify time string string string
  | UpdateStatus time string SoulStatus string string
  | Sweep time

fun apply_operation ::
  "(byte list \<Rightarrow> byte list) \<Rightarrow> ed_verify \<Rightarrow> (string \<Rightarrow> time option) \<Rightarrow> RegistryDB \<Rightarrow> operation
     \<Rightarrow> RegistryDB" where
  "apply_operation H V D db (Register now doc sg) = snd (post_register H V now db doc sg)"
| "apply_operation H V D db (PutContact now ref c sg ts) = snd (put_contact V D now db ref c sg ts)"
| "apply_operation H V D db (PutCapabilities now ref caps risk sg ts) =
     snd (put_capabilities V D now db ref caps risk sg ts)"
| "apply_operation H V D db (IssueChallenge now ref cid n) = snd (post_challenge now db ref cid n)"
| "apply_operation H V D db (Verify now ref cid sg) = snd (post_verify V now db ref cid sg)"
| "apply_operation H V D db (UpdateStatus now ref st reason sg) =
     snd (updateStatus V now db ref st reason sg)"
| "apply_operation H V D db (Sweep now) = snd (cleanExpiredChallenges now db)"

definition run_operations ::
  "(byte list \<Rightarrow> byte list) \<Rightarrow> ed_verify \<Rightarrow> (string \<Rightarrow> time option) \<Rightarrow> RegistryDB \<Rightarrow> operation list
     \<Rightarrow> RegistryDB" where
  "run_operations H V D db ops = fold (\<lambda>op d. apply_operation H V D d op) ops db"

subsection \<open>A challenge that has left \<open>pending\<close>\<close>

text \<open>The store holds the challenge \<open>cid\<close>, expiring at \<open>e\<close>, with a status other than \<open>pending\<close>.\<close>

definition spentChallenge :: "string \<Rightarrow> time \<Rightarrow> RegistryDB \<Rightarrow> bool" where
  "spentChallenge cid e db =
     (case getChallenge db cid of
        None \<Rightarrow> False
      | Some c \<Rightarrow> challengeStatus c \<noteq> pending \<and> expiresAt c = e)"

subsection \<open>Example data\<close>

text \<open>
  Stand-ins for the library functions, for evaluating the handlers on examples: a hash
  that keeps the first two bytes, a verifier that accepts a signature exactly when its
  bytes are the key's, and a date parser that knows two instants.
\<close>

definition toyHash :: "byte list \<Rightarrow> byte list" where
  "toyHash bs = take 2 bs"

definition toyVerify :: ed_verify where
  "toyVerify sigBytes msgBytes pubKeyBytes = Inr (sigBytes = pubKeyBytes)"

definition toyParseDate :: "string \<Rightarrow> time option" where
  "toyParseDate s =
     (if s = ''1970-01-01T00:00:00.000Z'' then Some 0
      else if s = ''1970-01-02T00:00:00.000Z'' then Some 86400000
      else None)"

text \<open>The empty store, saved under the server's default path.\<close>

definition emptyDB :: RegistryDB where
  "emptyDB = \<lparr> dbPath = ''./registry.db'', souls = [], challenges = [] \<rparr>"

text \<open>The store after the README's document is registered at time 1000.\<close>

definition nexusDB :: RegistryDB where
  "nexusDB = snd (post_register toyHash toyVerify 1000 emptyDB nexusDocument ''ab01'')"

text \<open>The record of that store, a contact to give it, and the store with a challenge issued at time 2000.\<close>

definition nexusRecord :: SoulRecord where
  "nexusRecord = \<lparr> did = ''did:soul:nexus'', name = ''nexus'', publicKey = ''ab01'',
     birth = \<lparr> timestamp = ''2026-02-01T00:00:00Z'', operator = ''Adam'',
               baseModel = None, platform = Some ''Clawdbot'', charterHash = None \<rparr>,
     avatar = None, description = Some ''A continuity-focused AI partner'',
     website = None, contact = None, capabilities = None, riskLevel = None,
     status = active, statusReason = None, statusChangedAt = None, registeredAt = 1000,
     lastVerifiedAt = None, verificationCount = 0, registryId = 1, version = 1 \<rparr>"

definition nexusContact :: Contact where
  "nexusContact = \<lparr> email = None, inbox = None, agentmail = Some ''nexus@agentmail'',
     webhook = None, protocols = Some [''agentmail''], preferred = None \<rparr>"

definition challengeDB :: RegistryDB where
  "challengeDB = snd (post_challenge 2000 nexusDB ''nexus'' ''ch_01'' ''5eed'')"

text \<open>The store after that challenge is completed at time 3000.\<close>

definition completedDB :: RegistryDB where
  "completedDB = snd (post_verify toyVerify 3000 challengeDB ''nexus'' ''ch_01'' ''ab01'')"

text \<open>
  Stand-ins that bind a signature to what is signed: a 32-bit rolling digest, and a
  scheme in which the signature of a message under a key is the key followed by the
  message. \<open>boundSign\<close> writes that signature in hex for a hex key and a text.
\<close>

definition rollingHash :: "byte list \<Rightarrow> byte list" where
  "rollingHash bs =
     (let h = fold (\<lambda>b h. h * 31 + ucast b) bs (0 :: 32 word)
      in map (\<lambda>i. ucast (drop_bit (8 * i) h)) [3, 2, 1, 0 :: nat])"

definition boundVerify :: ed_verify where
  "boundVerify sigBytes msgBytes pubKeyBytes = Inr (sigBytes = pubKeyBytes @ msgBytes)"

definition boundSign :: "string \<Rightarrow> string \<Rightarrow> string" where
  "boundSign pubKey msg = toHex (Buffer_from_hex pubKey @ TextEncoder_encode msg)"

text \<open>
  The signature the example client sends for the README's document, over the hash of
  the recursively sorted text, and a signature over the hash the server computes of it.
\<close>

definition signature_client :: string where
  "signature_client =
     boundSign ''ab01'' (hashSoulDocument_client rollingHash (soulDocumentJson nexusDocument))"

definition signature_server :: string where
  "signature_server =
     boundSign ''ab01'' (hashSoulDocument rollingHash (soulDocumentJson nexusDocument))"

text \<open>The README's document with another birth certificate.\<close>

definition forgedDocument :: SoulDocument where
  "forgedDocument = nexusDocument
     \<lparr> birth := \<lparr> timestamp = ''1999-12-31T23:59:59Z'', operator = ''Mallory'',
                   baseModel = None, platform = None, charterHash = None \<rparr> \<rparr>"

section \<open>Properties\<close>

subsection \<open>The signature verifier returns a boolean\<close>





subsection \<open>What the server's hash covers\<close>

lemma set_insertKey: "set (insertKey k xs) = insert k (set xs)"
  by (induction xs) auto

lemma set_arraySort: "set (arraySort ks) = set ks"
  by (induction ks) (auto simp: arraySort_def set_insertKey)

lemma set_fold_propertyList:
  "set (fold (\<lambda>k acc. if k \<in> set acc then acc else acc @ [k]) ks acc) = set ks \<union> set acc"
  by (induction ks arbitrary: acc) auto

lemma set_propertyList: "set (propertyList ks) = set ks"
  by (simp add: propertyList_def set_fold_propertyList)

lemma map_filter_all_None: "(\<And>k. k \<in> set K \<Longrightarrow> f k = None) \<Longrightarrow> List.map_filter f K = []"
  by (induction K) (auto simp: List.map_filter_simps)

text \<open>An object none of whose keys is in the property list is written as \<open>{}\<close>.\<close>

lemma stringifyWith_no_keys:
  assumes "set K \<inter> fst ` set kvs = {}"
  shows "stringifyWith K (JObj kvs) = ''{}''"
proof -
  let ?members = "map (\<lambda>kv. (fst kv, quoteJSON (fst kv) @ '':'' @ stringifyWith K (snd kv))) kvs"
  have "map_of ?members k = None" if "k \<in> set K" for k
  proof -
    from that assms have "k \<notin> fst ` set ?members" by (auto simp: image_image)
    then show ?thesis by (simp add: map_of_eq_None_iff)
  qed
  then have "List.map_filter (map_of ?members) K = []"
    by (rule map_filter_all_None)
  then show ?thesis by simp
qed

lemma Object_keys_soulDocumentJson: "set (Object_keys (soulDocumentJson d)) \<subseteq> documentKeys"
  by (auto simp: soulDocumentJson_def optField_def documentKeys_def split: option.splits)

lemma Object_keys_birth_update:
  "Object_keys (soulDocumentJson (d\<lparr>birth := b\<rparr>)) = Object_keys (soulDocumentJson d)"
  by (simp add: soulDocumentJson_def)

lemma disjoint_subsets: "A \<subseteq> X \<Longrightarrow> B \<subseteq> Y \<Longrightarrow> X \<inter> Y = {} \<Longrightarrow> A \<inter> B = {}"
  by blast

lemma documentKeys_birthKeys: "documentKeys \<inter> birthKeys = {}"
  by (simp add: documentKeys_def birthKeys_def)

lemma birthJson_keys:
  "fst ` set ([(''timestamp'', JStr (timestamp b)), (''operator'', JStr (operator b))]
     @ optField ''baseModel'' JStr (baseModel b)
     @ optField ''platform'' JStr (platform b)
     @ optField ''charterHash'' JStr (charterHash b)) \<subseteq> birthKeys"
  by (auto simp: optField_def birthKeys_def split: option.splits)

lemma stringifyWith_birthJson:
  assumes "set K \<subseteq> documentKeys"
  shows "stringifyWith K (birthJson b) = ''{}''"
  unfolding birthJson_def
  by (rule stringifyWith_no_keys) (rule disjoint_subsets [OF assms birthJson_keys documentKeys_birthKeys])

text \<open>The server's canonical text of a soul document does not depend on its birth certificate.\<close>

lemma canonical_birth_update:
  "canonical (soulDocumentJson (d\<lparr>birth := b\<rparr>)) = canonical (soulDocumentJson d)"
proof -
  let ?K = "propertyList (arraySort (Object_keys (soulDocumentJson d)))"
  have K: "set ?K \<subseteq> documentKeys"
    using Object_keys_soulDocumentJson [of d] by (simp add: set_propertyList set_arraySort)
  have "stringifyWith ?K (soulDocumentJson (d\<lparr>birth := b\<rparr>)) = stringifyWith ?K (soulDocumentJson d)"
    using K by (simp add: soulDocumentJson_def stringifyWith_birthJson)
  then show ?thesis
    by (simp only: canonical_def Object_keys_birth_update)
qed

lemma canonical_nexusDocument:
  \<open>canonical (soulDocumentJson nexusDocument) =
     ''{"birth":{},"description":"A continuity-focused AI partner","did":"did:soul:nexus","name":"nexus","publicKey":"ab01"}''\<close>
  by code_simp

lemma canonical_client_nexusDocument:
  \<open>canonical_client (soulDocumentJson nexusDocument) =
     ''{"birth":{"operator":"Adam","platform":"Clawdbot","timestamp":"2026-02-01T00:00:00Z"},"description":"A continuity-focused AI partner","did":"did:soul:nexus","name":"nexus","publicKey":"ab01"}''\<close>
  by code_simp

text \<open>
  C1. The server's \<open>hashSoulDocument\<close> and the client's are compared on the README's
  registration document. The server hashes a text in which the birth certificate is the
  empty object; the client hashes the text with the birth certificate's three fields in
  sorted order. The two canonical texts differ, so the digests are those of two
  different inputs.
\<close>

theorem hashSoulDocument_server_client_differ:
  \<open>hashSoulDocument sha512 (soulDocumentJson nexusDocument) =
     toHex (sha512 (TextEncoder_encode
       ''{"birth":{},"description":"A continuity-focused AI partner","did":"did:soul:nexus","name":"nexus","publicKey":"ab01"}''))
   \<and> hashSoulDocument_client sha512 (soulDocumentJson nexusDocument) =
     toHex (sha512 (TextEncoder_encode
       ''{"birth":{"operator":"Adam","platform":"Clawdbot","timestamp":"2026-02-01T00:00:00Z"},"description":"A continuity-focused AI partner","did":"did:soul:nexus","name":"nexus","publicKey":"ab01"}''))
   \<and> canonical (soulDocumentJson nexusDocument) \<noteq> canonical_client (soulDocumentJson nexusDocument)\<close>
  by (simp add: hashSoulDocument_def hashSoulDocument_client_def
        canonical_nexusDocument canonical_client_nexusDocument)

text \<open>
  C2. A signature is checked against the server's hash of the document, and that hash
  does not change when the birth certificate is replaced (its timestamp included): for
  every document, every replacement birth certificate, every signature and every key,
  verification over the hash of the changed document gives the same answer as over the
  hash of the original. A signature that verifies for a document verifies for each of
  these mutations of it.
\<close>

theorem verifySignature_ignores_birth:
  "verifySignature V (MsgString (hashSoulDocument H (soulDocumentJson (d\<lparr>birth := b\<rparr>)))) sg pk
   = verifySignature V (MsgString (hashSoulDocument H (soulDocumentJson d))) sg pk"
  by (simp add: hashSoulDocument_def canonical_birth_update)

subsection \<open>Registration\<close>

lemma verifySignature_cases:
  "verifySignature V m sg pk = Inr True \<or> verifySignature V m sg pk = Inr False"
  by (auto simp: verifySignature_def try_catch_def split: sum.splits)

lemma post_register_failure_unchanged:
  "fst (post_register H V now db doc sg) = Inl e \<Longrightarrow> snd (post_register H V now db doc sg) = db"
  by (auto simp: post_register_def Let_def split: option.splits sum.splits if_splits)

lemma find_append_new:
  "\<forall>r \<in> set xs. \<not> P r \<Longrightarrow> P y \<Longrightarrow> find P (xs @ [y]) = Some y"
  by (induction xs) auto

lemma createSoul_Inr:
  assumes "createSoul db soul = Inr (db', rec)"
  shows "did rec = did soul \<and> registeredAt rec = registeredAt soul"
    and "challenges db' = challenges db"
    and "\<exists>row. souls db' = souls db @ [row] \<and> did row = did soul \<and> name row = name soul
            \<and> publicKey row = publicKey soul \<and> status row = status soul
            \<and> verificationCount row = verificationCount soul \<and> registeredAt row = registeredAt soul
            \<and> version row = 1"
    and "\<forall>r \<in> set (souls db). did r \<noteq> did soul"
  using assms by (auto simp: createSoul_def Let_def NewSoul.defs split: if_splits)

lemma post_register_success:
  assumes "post_register H V now db doc sg = (Inr s, db')"
  shows "verifySignature V (MsgString (hashSoulDocument H (soulDocumentJson doc))) sg (publicKey doc) = Inr True"
    and "s = Registered (did doc) now"
    and "\<exists>r. getSoulByDid db' (did doc) = Some r \<and> did r = did doc \<and> name r = name doc
            \<and> publicKey r = publicKey doc \<and> status r = active
            \<and> verificationCount r = 0 \<and> registeredAt r = now"
proof -
  let ?new = "SoulDocument.extend doc
     \<lparr> capabilities = None, riskLevel = None, status = active, statusReason = None,
       statusChangedAt = None, registeredAt = now, lastVerifiedAt = None, verificationCount = 0 \<rparr>"
  from assms obtain rec where
    sig: "verifySignature V (MsgString (hashSoulDocument H (soulDocumentJson doc))) sg (publicKey doc) = Inr True"
    and cs: "createSoul db ?new = Inr (db', rec)"
    and s: "s = Registered (did rec) (registeredAt rec)"
    by (auto simp: post_register_def Let_def split: option.splits sum.splits if_splits)
  show "verifySignature V (MsgString (hashSoulDocument H (soulDocumentJson doc))) sg (publicKey doc) = Inr True"
    by (rule sig)
  from createSoul_Inr(1) [OF cs] s show "s = Registered (did doc) now"
    by (simp add: SoulDocument.defs NewSoul.defs)
  from createSoul_Inr(3) [OF cs] obtain row where
    row: "souls db' = souls db @ [row]" "did row = did ?new" "name row = name ?new"
      "publicKey row = publicKey ?new" "status row = status ?new"
      "verificationCount row = verificationCount ?new" "registeredAt row = registeredAt ?new"
    by blast
  have fresh: "\<forall>r \<in> set (souls db). \<not> did r = did doc"
    using createSoul_Inr(4) [OF cs] by (simp add: SoulDocument.defs)
  have "find (\<lambda>r. did r = did doc) (souls db') = Some row"
    unfolding row(1) using fresh row(2) by (intro find_append_new) (simp_all add: SoulDocument.defs)
  then show "\<exists>r. getSoulByDid db' (did doc) = Some r \<and> did r = did doc \<and> name r = name doc
            \<and> publicKey r = publicKey doc \<and> status r = active
            \<and> verificationCount r = 0 \<and> registeredAt r = now"
    using row by (simp add: getSoulByDid_def rowToSoul_def SoulDocument.defs)
qed



lemma nexus_registered:
  "post_register toyHash toyVerify 1000 emptyDB nexusDocument ''ab01'' =
     (Inr (Registered ''did:soul:nexus'' 1000), nexusDB)"
proof -
  have "fst (post_register toyHash toyVerify 1000 emptyDB nexusDocument ''ab01'') =
      Inr (Registered ''did:soul:nexus'' 1000)"
    by code_simp
  then show ?thesis
    by (simp add: nexusDB_def prod_eq_iff)
qed

text \<open>
  The gates of the register handler, with the hash the server computes. A DID that does
  not match the name (both lowercased) answers \<open>DID_MISMATCH\<close>; otherwise a name
  already registered (without regard to case) answers \<open>NAME_TAKEN\<close>; otherwise a
  signature that does not verify over the server's \<open>hashSoulDocument\<close> of the document
  with the document's own public key answers \<open>INVALID_SIGNATURE\<close>. Every error
  response leaves the store unchanged. When registration succeeds, the signature
  verifies over that hash with the document's own key, and the record found under the
  declared DID has status \<open>active\<close>, verification count 0 and the server's time as
  \<open>registeredAt\<close>.
\<close>

theorem post_register_gates:
  "(toLowerCase (did doc) \<noteq> ''did:soul:'' @ toLowerCase (name doc)
      \<longrightarrow> post_register H V now db doc sg = (Inl DID_MISMATCH, db))
   \<and> (toLowerCase (did doc) = ''did:soul:'' @ toLowerCase (name doc)
        \<and> getSoulByName db (name doc) \<noteq> None
      \<longrightarrow> post_register H V now db doc sg = (Inl NAME_TAKEN, db))
   \<and> (toLowerCase (did doc) = ''did:soul:'' @ toLowerCase (name doc)
        \<and> getSoulByName db (name doc) = None
        \<and> verifySignature V (MsgString (hashSoulDocument H (soulDocumentJson doc))) sg (publicKey doc) = Inr False
      \<longrightarrow> post_register H V now db doc sg = (Inl INVALID_SIGNATURE, db))
   \<and> (\<forall>e. fst (post_register H V now db doc sg) = Inl e
      \<longrightarrow> snd (post_register H V now db doc sg) = db)
   \<and> (\<forall>s db'. post_register H V now db doc sg = (Inr s, db')
      \<longrightarrow> verifySignature V (MsgString (hashSoulDocument H (soulDocumentJson doc))) sg (publicKey doc) = Inr True
          \<and> s = Registered (did doc) now
          \<and> (\<exists>r. getSoulByDid db' (did doc) = Some r \<and> did r = did doc \<and> name r = name doc
                \<and> publicKey r = publicKey doc \<and> status r = active
                \<and> verificationCount r = 0 \<and> registeredAt r = now))"
proof (intro conjI allI impI)
  assume "toLowerCase (did doc) \<noteq> ''did:soul:'' @ toLowerCase (name doc)"
  then show "post_register H V now db doc sg = (Inl DID_MISMATCH, db)"
    by (simp add: post_register_def)
next
  assume "toLowerCase (did doc) = ''did:soul:'' @ toLowerCase (name doc)
        \<and> getSoulByName db (name doc) \<noteq> None"
  then show "post_register H V now db doc sg = (Inl NAME_TAKEN, db)"
    by (auto simp: post_register_def)
next
  assume "toLowerCase (did doc) = ''did:soul:'' @ toLowerCase (name doc)
        \<and> getSoulByName db (name doc) = None
        \<and> verifySignature V (MsgString (hashSoulDocument H (soulDocumentJson doc))) sg (publicKey doc) = Inr False"
  then show "post_register H V now db doc sg = (Inl INVALID_SIGNATURE, db)"
    by (simp add: post_register_def)
next
  fix e assume "fst (post_register H V now db doc sg) = Inl e"
  then show "snd (post_register H V now db doc sg) = db"
    by (rule post_register_failure_unchanged)
next
  fix s db' assume r: "post_register H V now db doc sg = (Inr s, db')"
  show "verifySignature V (MsgString (hashSoulDocument H (soulDocumentJson doc))) sg (publicKey doc) = Inr True"
    by (rule post_register_success(1) [OF r])
  show "s = Registered (did doc) now"
    by (rule post_register_success(2) [OF r])
  show "\<exists>r. getSoulByDid db' (did doc) = Some r \<and> did r = did doc \<and> name r = name doc
                \<and> publicKey r = publicKey doc \<and> status r = active
                \<and> verificationCount r = 0 \<and> registeredAt r = now"
    by (rule post_register_success(3) [OF r])
qed


theorem post_register_gates_witness:
  "post_register toyHash toyVerify 2000 emptyDB (nexusDocument\<lparr>did := ''did:soul:other''\<rparr>) ''ab01''
     = (Inl DID_MISMATCH, emptyDB)
   \<and> post_register toyHash toyVerify 2000 nexusDB (nexusDocument\<lparr>name := ''Nexus'', publicKey := ''cd02''\<rparr>) ''cd02''
     = (Inl NAME_TAKEN, nexusDB)
   \<and> post_register toyHash toyVerify 2000 emptyDB nexusDocument ''cd02'' = (Inl INVALID_SIGNATURE, emptyDB)
   \<and> verifySignature toyVerify (MsgString (hashSoulDocument toyHash (soulDocumentJson nexusDocument)))
        ''ab01'' (publicKey nexusDocument) = Inr True
   \<and> (\<exists>r. getSoulByDid nexusDB (did nexusDocument) = Some r \<and> did r = did nexusDocument
         \<and> name r = name nexusDocument \<and> publicKey r = publicKey nexusDocument \<and> status r = active
         \<and> verificationCount r = 0 \<and> registeredAt r = 1000)"
proof -
  let ?other = "nexusDocument\<lparr>did := ''did:soul:other''\<rparr>"
  let ?again = "nexusDocument\<lparr>name := ''Nexus'', publicKey := ''cd02''\<rparr>"
  have h1: "toLowerCase (did ?other) \<noteq> ''did:soul:'' @ toLowerCase (name ?other)"
    by code_simp
  have h2: "toLowerCase (did ?again) = ''did:soul:'' @ toLowerCase (name ?again)
      \<and> getSoulByName nexusDB (name ?again) \<noteq> None"
    by code_simp
  have h3: "toLowerCase (did nexusDocument) = ''did:soul:'' @ toLowerCase (name nexusDocument)
      \<and> getSoulByName emptyDB (name nexusDocument) = None
      \<and> verifySignature toyVerify (MsgString (hashSoulDocument toyHash (soulDocumentJson nexusDocument)))
           ''cd02'' (publicKey nexusDocument) = Inr False"
    by code_simp
  note g1 = post_register_gates [of ?other toyHash toyVerify 2000 emptyDB "''ab01''"]
  note g2 = post_register_gates [of ?again toyHash toyVerify 2000 nexusDB "''cd02''"]
  note g3 = post_register_gates [of nexusDocument toyHash toyVerify 2000 emptyDB "''cd02''"]
  note g4 = post_register_gates [of nexusDocument toyHash toyVerify 1000 emptyDB "''ab01''"]
  from g1 h1 have c1: "post_register toyHash toyVerify 2000 emptyDB ?other ''ab01'' = (Inl DID_MISMATCH, emptyDB)"
    by blast
  from g2 h2 have c2: "post_register toyHash toyVerify 2000 nexusDB ?again ''cd02'' = (Inl NAME_TAKEN, nexusDB)"
    by blast
  from g3 h3 have c3: "post_register toyHash toyVerify 2000 emptyDB nexusDocument ''cd02'' = (Inl INVALID_SIGNATURE, emptyDB)"
    by blast
  from g4 nexus_registered have c4:
    "verifySignature toyVerify (MsgString (hashSoulDocument toyHash (soulDocumentJson nexusDocument)))
        ''ab01'' (publicKey nexusDocument) = Inr True
     \<and> (\<exists>r. getSoulByDid nexusDB (did nexusDocument) = Some r \<and> did r = did nexusDocument
         \<and> name r = name nexusDocument \<and> publicKey r = publicKey nexusDocument \<and> status r = active
         \<and> verificationCount r = 0 \<and> registeredAt r = 1000)"
    by blast
  from c1 c2 c3 c4 show ?thesis by blast
qed


text \<open>
  C8. The signature gate of registration, on the README's document, with a digest and a
  signature scheme that bind a signature to the text hashed. The signature the example
  client makes verifies over the hash of the whole document with the document's own
  key, and the registration is refused with \<open>INVALID_SIGNATURE\<close>. A signature over the
  server's hash of the README's document does not verify over the hash of the document
  with another birth certificate, and that document is registered with it: the record
  stored names the other operator.
\<close>

theorem post_register_signature_not_over_document:
  "verifySignature boundVerify
      (MsgString (hashSoulDocument_client rollingHash (soulDocumentJson nexusDocument)))
      signature_client (publicKey nexusDocument) = Inr True
   \<and> post_register rollingHash boundVerify 1000 emptyDB nexusDocument signature_client
       = (Inl INVALID_SIGNATURE, emptyDB)
   \<and> verifySignature boundVerify
      (MsgString (hashSoulDocument_client rollingHash (soulDocumentJson forgedDocument)))
      signature_server (publicKey forgedDocument) = Inr False
   \<and> fst (post_register rollingHash boundVerify 1000 emptyDB forgedDocument signature_server)
       = Inr (Registered ''did:soul:nexus'' 1000)
   \<and> map (\<lambda>r. operator (birth r))
        (souls (snd (post_register rollingHash boundVerify 1000 emptyDB forgedDocument signature_server)))
       = [''Mallory'']"
  by code_simp

lemma post_register_DID_MISMATCH_iff:
  "(fst (post_register H V now db doc sg) = Inl DID_MISMATCH)
     = (toLowerCase (did doc) \<noteq> ''did:soul:'' @ toLowerCase (name doc))"
  by (auto simp: post_register_def Let_def split: option.splits sum.splits if_splits)

text \<open>
  C9, as the code has it. The DID check compares the two sides lowercased: registration
  answers \<open>DID_MISMATCH\<close> exactly when the lowercased declared DID differs from
  \<open>did:soul:\<close> followed by the lowercased name, and then the store is unchanged. A
  registration that succeeds stores and returns the DID as declared.
\<close>

theorem post_register_did_check:
  "((fst (post_register H V now db doc sg) = Inl DID_MISMATCH)
      = (toLowerCase (did doc) \<noteq> ''did:soul:'' @ toLowerCase (name doc)))
   \<and> (toLowerCase (did doc) \<noteq> ''did:soul:'' @ toLowerCase (name doc)
      \<longrightarrow> snd (post_register H V now db doc sg) = db)
   \<and> (\<forall>s db'. post_register H V now db doc sg = (Inr s, db')
      \<longrightarrow> s = Registered (did doc) now
          \<and> (\<exists>r. getSoulByDid db' (did doc) = Some r \<and> did r = did doc))"
proof (intro conjI allI impI)
  show "(fst (post_register H V now db doc sg) = Inl DID_MISMATCH)
      = (toLowerCase (did doc) \<noteq> ''did:soul:'' @ toLowerCase (name doc))"
    by (rule post_register_DID_MISMATCH_iff)
next
  assume "toLowerCase (did doc) \<noteq> ''did:soul:'' @ toLowerCase (name doc)"
  then show "snd (post_register H V now db doc sg) = db"
    by (simp add: post_register_def)
next
  fix s db' assume r: "post_register H V now db doc sg = (Inr s, db')"
  show "s = Registered (did doc) now"
    by (rule post_register_success(2) [OF r])
  from post_register_success(3) [OF r]
  show "\<exists>r. getSoulByDid db' (did doc) = Some r \<and> did r = did doc"
    by blast
qed

theorem post_register_did_check_witness:
  "fst (post_register toyHash toyVerify 2000 emptyDB (nexusDocument\<lparr>did := ''did:soul:other''\<rparr>) ''ab01'')
     = Inl DID_MISMATCH
   \<and> snd (post_register toyHash toyVerify 2000 emptyDB (nexusDocument\<lparr>did := ''did:soul:other''\<rparr>) ''ab01'')
     = emptyDB
   \<and> (\<exists>r. getSoulByDid nexusDB (did nexusDocument) = Some r \<and> did r = did nexusDocument)"
proof -
  let ?other = "nexusDocument\<lparr>did := ''did:soul:other''\<rparr>"
  have h1: "toLowerCase (did ?other) \<noteq> ''did:soul:'' @ toLowerCase (name ?other)"
    by code_simp
  note g1 = post_register_did_check [of toyHash toyVerify 2000 emptyDB ?other "''ab01''"]
  note g2 = post_register_did_check [of toyHash toyVerify 1000 emptyDB nexusDocument "''ab01''"]
  from g1 h1 have c1: "fst (post_register toyHash toyVerify 2000 emptyDB ?other ''ab01'') = Inl DID_MISMATCH
     \<and> snd (post_register toyHash toyVerify 2000 emptyDB ?other ''ab01'') = emptyDB"
    by blast
  from g2 nexus_registered
  have c2: "\<exists>r. getSoulByDid nexusDB (did nexusDocument) = Some r \<and> did r = did nexusDocument"
    by blast
  from c1 c2 show ?thesis by blast
qed

text \<open>
  C9, as stated, fails: a declared DID \<open>did:soul:Nexus\<close> is not \<open>did:soul:\<close> followed
  by the name \<open>nexus\<close>, and the registration succeeds, storing the DID as declared.
\<close>

theorem did_case_mismatch_accepted:
  "did (nexusDocument\<lparr>did := ''did:soul:Nexus''\<rparr>) \<noteq> ''did:soul:'' @ name (nexusDocument\<lparr>did := ''did:soul:Nexus''\<rparr>)
   \<and> fst (post_register toyHash toyVerify 2000 emptyDB (nexusDocument\<lparr>did := ''did:soul:Nexus''\<rparr>) ''ab01'')
       = Inr (Registered ''did:soul:Nexus'' 2000)
   \<and> map did (souls (snd (post_register toyHash toyVerify 2000 emptyDB (nexusDocument\<lparr>did := ''did:soul:Nexus''\<rparr>) ''ab01'')))
       = [''did:soul:Nexus'']"
  by code_simp


subsection \<open>The freshness window of metadata updates\<close>

lemma resolve_nexus: "resolveSoul nexusDB ''nexus'' = Some nexusRecord"
  by code_simp

text \<open>
  C7, as the code has it. A contact update or a capabilities update for a subject that
  resolves, with a timestamp that parses to an instant more than five minutes before
  the server's time, is answered \<open>TIMESTAMP_EXPIRED\<close> and leaves the store unchanged,
  whatever the signature. A status change carries no timestamp and is never answered
  \<open>TIMESTAMP_EXPIRED\<close>.
\<close>

theorem stale_timestamp_rejected:
  assumes "resolveSoul db ref = Some soul" and "parseDate ts = Some t" and "t < now - 5 * 60 * 1000"
  shows "put_contact V parseDate now db ref c sg ts = (Inl TIMESTAMP_EXPIRED, db)
       \<and> put_capabilities V parseDate now db ref caps risk sg ts = (Inl TIMESTAMP_EXPIRED, db)
       \<and> fst (updateStatus V now db ref st reason sg) \<noteq> Inl TIMESTAMP_EXPIRED"
  using assms verifySignature_cases [of V "MsgString (statusName st @ '':'' @ did soul @ '':'' @ reason)" sg "publicKey soul"]
  by (auto simp: put_contact_def put_capabilities_def updateStatus_def date_less_def Let_def)

theorem stale_timestamp_rejected_witness:
  "resolveSoul nexusDB ''nexus'' = Some nexusRecord
   \<and> toyParseDate ''1970-01-01T00:00:00.000Z'' = Some 0
   \<and> (0::int) < 1000000 - 5 * 60 * 1000
   \<and> verifySignature toyVerify (MsgString (''contact-update:'' @ did nexusRecord @ '':'' @ ''1970-01-01T00:00:00.000Z''))
        ''ab01'' (publicKey nexusRecord) = Inr True
   \<and> put_contact toyVerify toyParseDate 1000000 nexusDB ''nexus'' nexusContact ''ab01'' ''1970-01-01T00:00:00.000Z''
        = (Inl TIMESTAMP_EXPIRED, nexusDB)
   \<and> put_capabilities toyVerify toyParseDate 1000000 nexusDB ''nexus'' [''chat''] None ''ab01'' ''1970-01-01T00:00:00.000Z''
        = (Inl TIMESTAMP_EXPIRED, nexusDB)"
proof -
  have p: "toyParseDate ''1970-01-01T00:00:00.000Z'' = Some 0"
    by (simp add: toyParseDate_def)
  have lt: "(0::int) < 1000000 - 5 * 60 * 1000"
    by simp
  have v: "verifySignature toyVerify (MsgString (''contact-update:'' @ did nexusRecord @ '':'' @ ''1970-01-01T00:00:00.000Z''))
        ''ab01'' (publicKey nexusRecord) = Inr True"
    by code_simp
  note st = stale_timestamp_rejected
    [where db = nexusDB and ref = "''nexus''" and soul = nexusRecord and parseDate = toyParseDate
       and ts = "''1970-01-01T00:00:00.000Z''" and t = 0 and now = 1000000 and V = toyVerify
       and sg = "''ab01''" and c = nexusContact and caps = "[''chat'']" and risk = None]
  from st resolve_nexus p lt v show ?thesis by blast
qed

text \<open>
  C7, as stated, fails for status changes: the request has a reason and a signature, no
  timestamp, and \<open>updateStatus\<close> has no freshness gate. A suspension signed once is
  accepted at any later server time and changes the stored record.
\<close>

theorem status_change_without_freshness_gate:
  "fst (updateStatus toyVerify 1000000000000 nexusDB ''nexus'' suspended ''signed long ago'' ''ab01'')
     = Inr (StatusChanged ''did:soul:nexus'' suspended 1000000000000)
   \<and> map status (souls nexusDB) = [active]
   \<and> map status (souls (snd (updateStatus toyVerify 1000000000000 nexusDB ''nexus'' suspended ''signed long ago'' ''ab01'')))
     = [suspended]"
  by code_simp

text \<open>
  C10. For a subject that resolves and a timestamp that parses, the contact and the
  capabilities updates answer \<open>TIMESTAMP_EXPIRED\<close> exactly when the timestamp is more
  than five minutes before the server's time. A timestamp after the server's time,
  however far, passes the gate, and the outcome is then decided by the signature check:
  the update is made when the signature verifies and \<open>INVALID_SIGNATURE\<close> is answered
  when it does not.
\<close>

theorem future_timestamp_passes:
  assumes "resolveSoul db ref = Some soul" and "parseDate ts = Some t"
  shows "((fst (put_contact V parseDate now db ref c sg ts) = Inl TIMESTAMP_EXPIRED) = (t < now - 5 * 60 * 1000))
       \<and> ((fst (put_capabilities V parseDate now db ref caps risk sg ts) = Inl TIMESTAMP_EXPIRED) = (t < now - 5 * 60 * 1000))
       \<and> (now < t \<longrightarrow>
            put_contact V parseDate now db ref c sg ts =
              (if verifySignature V (MsgString (''contact-update:'' @ did soul @ '':'' @ ts)) sg (publicKey soul) = Inr True
               then (Inr (ContactUpdated (did soul) c now), snd (updateSoulContact db (did soul) c))
               else (Inl INVALID_SIGNATURE, db))
          \<and> put_capabilities V parseDate now db ref caps risk sg ts =
              (if verifySignature V (MsgString (''capabilities-update:'' @ did soul @ '':'' @ ts)) sg (publicKey soul) = Inr True
               then (Inr (CapabilitiesUpdated (did soul) caps (orNull risk) now),
                     snd (updateSoulCapabilities db (did soul) caps risk))
               else (Inl INVALID_SIGNATURE, db)))"
  using assms
    verifySignature_cases [of V "MsgString (''contact-update:'' @ did soul @ '':'' @ ts)" sg "publicKey soul"]
    verifySignature_cases [of V "MsgString (''capabilities-update:'' @ did soul @ '':'' @ ts)" sg "publicKey soul"]
  by (auto simp: put_contact_def put_capabilities_def date_less_def Let_def)


theorem future_timestamp_passes_witness:
  "resolveSoul nexusDB ''nexus'' = Some nexusRecord
   \<and> toyParseDate ''1970-01-02T00:00:00.000Z'' = Some 86400000
   \<and> (1000::int) < 86400000
   \<and> put_contact toyVerify toyParseDate 1000 nexusDB ''nexus'' nexusContact ''ab01'' ''1970-01-02T00:00:00.000Z''
        = (Inr (ContactUpdated (did nexusRecord) nexusContact 1000),
           snd (updateSoulContact nexusDB (did nexusRecord) nexusContact))
   \<and> put_capabilities toyVerify toyParseDate 1000 nexusDB ''nexus'' [''chat''] None ''ffff'' ''1970-01-02T00:00:00.000Z''
        = (Inl INVALID_SIGNATURE, nexusDB)"
proof -
  have p: "toyParseDate ''1970-01-02T00:00:00.000Z'' = Some 86400000"
    by (simp add: toyParseDate_def)
  have lt: "(1000::int) < 86400000"
    by simp
  have v1: "verifySignature toyVerify (MsgString (''contact-update:'' @ did nexusRecord @ '':'' @ ''1970-01-02T00:00:00.000Z''))
        ''ab01'' (publicKey nexusRecord) = Inr True"
    by code_simp
  have v2: "verifySignature toyVerify (MsgString (''capabilities-update:'' @ did nexusRecord @ '':'' @ ''1970-01-02T00:00:00.000Z''))
        ''ffff'' (publicKey nexusRecord) = Inr False"
    by code_simp
  note f1 = future_timestamp_passes
    [where db = nexusDB and ref = "''nexus''" and soul = nexusRecord and parseDate = toyParseDate
       and ts = "''1970-01-02T00:00:00.000Z''" and t = 86400000 and now = 1000 and V = toyVerify
       and sg = "''ab01''" and c = nexusContact, OF resolve_nexus p]
  note f2 = future_timestamp_passes
    [where db = nexusDB and ref = "''nexus''" and soul = nexusRecord and parseDate = toyParseDate
       and ts = "''1970-01-02T00:00:00.000Z''" and t = 86400000 and now = 1000 and V = toyVerify
       and sg = "''ffff''" and caps = "[''chat'']" and risk = None, OF resolve_nexus p]
  from f1 lt v1 have c1:
    "put_contact toyVerify toyParseDate 1000 nexusDB ''nexus'' nexusContact ''ab01'' ''1970-01-02T00:00:00.000Z''
        = (Inr (ContactUpdated (did nexusRecord) nexusContact 1000),
           snd (updateSoulContact nexusDB (did nexusRecord) nexusContact))"
    by simp
  from f2 lt v2 have c2:
    "put_capabilities toyVerify toyParseDate 1000 nexusDB ''nexus'' [''chat''] None ''ffff'' ''1970-01-02T00:00:00.000Z''
        = (Inl INVALID_SIGNATURE, nexusDB)"
    by simp
  from c1 c2 resolve_nexus p lt show ?thesis by blast
qed


subsection \<open>The version counter\<close>

lemma find_map_preserving:
  "(\<And>r. P (g r) = P r) \<Longrightarrow> find P (map g xs) = map_option g (find P xs)"
  by (induction xs) auto

lemma rowToSoul_keeps [simp]:
  "did (rowToSoul r) = did r" "name (rowToSoul r) = name r" "publicKey (rowToSoul r) = publicKey r"
  "version (rowToSoul r) = version r" "verificationCount (rowToSoul r) = verificationCount r"
  by (simp_all add: rowToSoul_def)

lemma resolveSoul_row:
  assumes "resolveSoul db ref = Some soul"
  shows "\<exists>P row. find P (souls db) = Some row \<and> soul = rowToSoul row
    \<and> (\<forall>db'. resolveSoul db' ref = map_option rowToSoul (find P (souls db')))
    \<and> (P = (\<lambda>r. did r = ref) \<or> P = (\<lambda>r. toLowerCase (name r) = toLowerCase ref))"
proof (cases "startsWith ref ''did:soul:''")
  case True
  with assms show ?thesis
    by (intro exI [of _ "\<lambda>r. did r = ref"]) (auto simp: resolveSoul_def getSoulByDid_def)
next
  case False
  with assms show ?thesis
    by (intro exI [of _ "\<lambda>r. toLowerCase (name r) = toLowerCase ref"])
       (auto simp: resolveSoul_def getSoulByName_def)
qed

lemma resolveSoul_after_update:
  assumes res: "resolveSoul db ref = Some soul"
    and keep: "\<And>r. did (f r) = did r" "\<And>r. name (f r) = name r"
    and ver: "\<And>r. version (f r) = version r + 1"
  shows "\<exists>soul'. resolveSoul (db\<lparr>souls := map (\<lambda>r. if did r = did soul then f r else r) (souls db)\<rparr>) ref = Some soul'
           \<and> version soul' = version soul + 1"
proof -
  let ?g = "\<lambda>r. if did r = did soul then f r else r"
  from resolveSoul_row [OF res] obtain P row where
    f: "find P (souls db) = Some row" and s: "soul = rowToSoul row"
    and r': "\<And>db'. resolveSoul db' ref = map_option rowToSoul (find P (souls db'))"
    and P: "P = (\<lambda>r. did r = ref) \<or> P = (\<lambda>r. toLowerCase (name r) = toLowerCase ref)"
    by (elim exE conjE) blast
  from P keep have "P (?g r) = P r" for r by auto
  then have "find P (map ?g (souls db)) = map_option ?g (find P (souls db))"
    by (rule find_map_preserving)
  with f s have "find P (map ?g (souls db)) = Some (f row)" by simp
  then have "resolveSoul (db\<lparr>souls := map ?g (souls db)\<rparr>) ref = Some (rowToSoul (f row))"
    by (simp add: r')
  moreover have "version (rowToSoul (f row)) = version soul + 1"
    using s ver by simp
  ultimately show ?thesis by blast
qed

text \<open>
  The three updates that count the version. For a subject that resolves, every
  successful contact update, capabilities update and status change leaves the record,
  resolved again by the same reference, with its version one higher.
\<close>

theorem mutations_increment_version:
  assumes "resolveSoul db ref = Some soul"
  shows "(\<forall>s db'. put_contact V D now db ref c sg ts = (Inr s, db')
            \<longrightarrow> (\<exists>soul'. resolveSoul db' ref = Some soul' \<and> version soul' = version soul + 1))
       \<and> (\<forall>s db'. put_capabilities V D now db ref caps risk sg ts = (Inr s, db')
            \<longrightarrow> (\<exists>soul'. resolveSoul db' ref = Some soul' \<and> version soul' = version soul + 1))
       \<and> (\<forall>s db'. updateStatus V now db ref st reason sg = (Inr s, db')
            \<longrightarrow> (\<exists>soul'. resolveSoul db' ref = Some soul' \<and> version soul' = version soul + 1))"
proof (intro conjI allI impI)
  fix s db' assume "put_contact V D now db ref c sg ts = (Inr s, db')"
  with assms have "db' = snd (updateSoulContact db (did soul) c)"
    by (auto simp: put_contact_def Let_def split: if_splits sum.splits)
  then show "\<exists>soul'. resolveSoul db' ref = Some soul' \<and> version soul' = version soul + 1"
    using resolveSoul_after_update [OF assms, of "\<lambda>r. r\<lparr>contact := Some c, version := version r + 1\<rparr>"]
    by (simp add: updateSoulContact_def)
next
  fix s db' assume "put_capabilities V D now db ref caps risk sg ts = (Inr s, db')"
  with assms have "db' = snd (updateSoulCapabilities db (did soul) caps risk)"
    by (auto simp: put_capabilities_def Let_def split: if_splits sum.splits)
  then show "\<exists>soul'. resolveSoul db' ref = Some soul' \<and> version soul' = version soul + 1"
    using resolveSoul_after_update [OF assms,
        of "\<lambda>r. r\<lparr>capabilities := Some caps, riskLevel := orNull risk, version := version r + 1\<rparr>"]
    by (simp add: updateSoulCapabilities_def)
next
  fix s db' assume "updateStatus V now db ref st reason sg = (Inr s, db')"
  with assms have "db' = snd (updateSoulStatus now db (did soul) st reason)"
    by (auto simp: updateStatus_def Let_def split: if_splits sum.splits)
  then show "\<exists>soul'. resolveSoul db' ref = Some soul' \<and> version soul' = version soul + 1"
    using resolveSoul_after_update [OF assms,
        of "\<lambda>r. r\<lparr>status := st, statusReason := Some reason, statusChangedAt := Some now,
                   version := version r + 1\<rparr>"]
    by (simp add: updateSoulStatus_def)
qed

theorem mutations_increment_version_witness:
  "resolveSoul nexusDB ''nexus'' = Some nexusRecord
   \<and> (\<exists>soul'. resolveSoul (snd (put_contact toyVerify toyParseDate 1000 nexusDB ''nexus'' nexusContact
                    ''ab01'' ''1970-01-02T00:00:00.000Z'')) ''nexus'' = Some soul'
          \<and> version soul' = version nexusRecord + 1)
   \<and> (\<exists>soul'. resolveSoul (snd (put_capabilities toyVerify toyParseDate 1000 nexusDB ''nexus'' [''chat''] None
                    ''ab01'' ''1970-01-02T00:00:00.000Z'')) ''nexus'' = Some soul'
          \<and> version soul' = version nexusRecord + 1)
   \<and> (\<exists>soul'. resolveSoul (snd (updateStatus toyVerify 1000 nexusDB ''nexus'' suspended ''maintenance''
                    ''ab01'')) ''nexus'' = Some soul'
          \<and> version soul' = version nexusRecord + 1)"
proof -
  let ?a = "put_contact toyVerify toyParseDate 1000 nexusDB ''nexus'' nexusContact ''ab01'' ''1970-01-02T00:00:00.000Z''"
  let ?b = "put_capabilities toyVerify toyParseDate 1000 nexusDB ''nexus'' [''chat''] None ''ab01'' ''1970-01-02T00:00:00.000Z''"
  let ?c = "updateStatus toyVerify 1000 nexusDB ''nexus'' suspended ''maintenance'' ''ab01''"
  have "fst ?a = Inr (ContactUpdated ''did:soul:nexus'' nexusContact 1000)"
    by code_simp
  then have a: "?a = (Inr (ContactUpdated ''did:soul:nexus'' nexusContact 1000), snd ?a)"
    by (simp add: prod_eq_iff)
  have "fst ?b = Inr (CapabilitiesUpdated ''did:soul:nexus'' [''chat''] None 1000)"
    by code_simp
  then have b: "?b = (Inr (CapabilitiesUpdated ''did:soul:nexus'' [''chat''] None 1000), snd ?b)"
    by (simp add: prod_eq_iff)
  have "fst ?c = Inr (StatusChanged ''did:soul:nexus'' suspended 1000)"
    by code_simp
  then have c: "?c = (Inr (StatusChanged ''did:soul:nexus'' suspended 1000), snd ?c)"
    by (simp add: prod_eq_iff)
  note m = mutations_increment_version [OF resolve_nexus, of toyVerify toyParseDate 1000 nexusContact
      "''ab01''" "''1970-01-02T00:00:00.000Z''" "[''chat'']" None suspended "''maintenance''"]
  from m a b c resolve_nexus show ?thesis by blast
qed

text \<open>
  C6. A challenge for the README's record is completed with a valid signature. The
  bookkeeping update \<open>incrementVerificationCount\<close> advances the verification count
  from 0 to 1 and leaves the version at 1: unlike the three updates above, it does not
  increment the version.
\<close>

theorem verification_keeps_version:
  "fst (post_verify toyVerify 3000 challengeDB ''nexus'' ''ch_01'' ''ab01'')
     = Inr (Verified ''did:soul:nexus'' 3000)
   \<and> map version (souls challengeDB) = [1]
   \<and> map verificationCount (souls challengeDB) = [0]
   \<and> map version (souls (snd (post_verify toyVerify 3000 challengeDB ''nexus'' ''ch_01'' ''ab01''))) = [1]
   \<and> map verificationCount (souls (snd (post_verify toyVerify 3000 challengeDB ''nexus'' ''ch_01'' ''ab01''))) = [1]"
  by code_simp



subsection \<open>Challenges: single use and terminal states\<close>

lemma find_filter_keep: "find P xs = Some c \<Longrightarrow> Q c \<Longrightarrow> find P (filter Q xs) = Some c"
  by (induction xs) (auto split: if_splits)

lemma find_append_old: "find P xs = Some c \<Longrightarrow> find P (xs @ ys) = Some c"
  by (induction xs) auto

lemma find_Some_holds: "find P xs = Some c \<Longrightarrow> P c"
  by (induction xs) (auto split: if_splits)

lemma challenges_post_register [simp]:
  "challenges (snd (post_register H V now db doc sg)) = challenges db"
  by (auto simp: post_register_def createSoul_def Let_def split: option.splits sum.splits)

lemma challenges_put_contact [simp]:
  "challenges (snd (put_contact V D now db ref c sg ts)) = challenges db"
  by (auto simp: put_contact_def updateSoulContact_def Let_def split: option.splits sum.splits)

lemma challenges_put_capabilities [simp]:
  "challenges (snd (put_capabilities V D now db ref caps risk sg ts)) = challenges db"
  by (auto simp: put_capabilities_def updateSoulCapabilities_def Let_def split: option.splits sum.splits)

lemma challenges_updateStatus [simp]:
  "challenges (snd (updateStatus V now db ref st reason sg)) = challenges db"
  by (auto simp: updateStatus_def updateSoulStatus_def Let_def split: option.splits sum.splits)

lemma spentChallenge_cong:
  "challenges db' = challenges db \<Longrightarrow> spentChallenge cid e db' = spentChallenge cid e db"
  by (simp add: spentChallenge_def getChallenge_def)

lemma getChallenge_updateChallengeStatus:
  "getChallenge (updateChallengeStatus db cid' st) cid =
     (if cid' = cid then map_option (\<lambda>c. c\<lparr>challengeStatus := st\<rparr>) (getChallenge db cid)
      else getChallenge db cid)"
proof -
  let ?g = "\<lambda>c. if challengeId c = cid' then c\<lparr>challengeStatus := st\<rparr> else c"
  have "find (\<lambda>c. challengeId c = cid) (map ?g (challenges db))
      = map_option ?g (find (\<lambda>c. challengeId c = cid) (challenges db))"
    by (rule find_map_preserving) simp
  moreover have "map_option ?g (find (\<lambda>c. challengeId c = cid) (challenges db))
      = (if cid' = cid then map_option (\<lambda>c. c\<lparr>challengeStatus := st\<rparr>) (find (\<lambda>c. challengeId c = cid) (challenges db))
         else find (\<lambda>c. challengeId c = cid) (challenges db))"
    by (cases "find (\<lambda>c. challengeId c = cid) (challenges db)") (auto dest: find_Some_holds)
  ultimately show ?thesis
    by (simp add: getChallenge_def updateChallengeStatus_def)
qed

lemma getChallenge_incrementVerificationCount [simp]:
  "getChallenge (incrementVerificationCount now db d) cid = getChallenge db cid"
  by (simp add: getChallenge_def incrementVerificationCount_def)

lemma spentChallenge_post_verify:
  assumes "spentChallenge cid e db"
  shows "spentChallenge cid e (snd (post_verify V now db ref cid' sg))"
  using assms
  by (auto simp: spentChallenge_def post_verify_def getChallenge_updateChallengeStatus Let_def
           split: option.splits sum.splits if_splits)

lemma spentChallenge_post_challenge:
  assumes "spentChallenge cid e db"
  shows "spentChallenge cid e (snd (post_challenge now db ref cid' n))"
  using assms
  by (auto simp: spentChallenge_def post_challenge_def createChallenge_def getChallenge_def Let_def
           find_append_old split: option.splits sum.splits if_splits)

lemma spentChallenge_sweep:
  assumes "spentChallenge cid e db"
  shows "spentChallenge cid e (snd (cleanExpiredChallenges now db))"
  using assms
  by (auto simp: spentChallenge_def cleanExpiredChallenges_def getChallenge_def Let_def
           find_filter_keep split: option.splits)

lemma spentChallenge_apply_operation:
  "spentChallenge cid e db \<Longrightarrow> spentChallenge cid e (apply_operation H V D db op)"
  by (cases op)
     (simp_all add: spentChallenge_post_verify spentChallenge_post_challenge spentChallenge_sweep
        spentChallenge_cong [of "snd (post_register H V _ db _ _)" db]
        spentChallenge_cong [of "snd (put_contact V D _ db _ _ _ _)" db]
        spentChallenge_cong [of "snd (put_capabilities V D _ db _ _ _ _ _)" db]
        spentChallenge_cong [of "snd (updateStatus V _ db _ _ _ _)" db])

lemma spentChallenge_run_operations:
  "spentChallenge cid e db \<Longrightarrow> spentChallenge cid e (run_operations H V D db ops)"
  unfolding run_operations_def
  by (induction ops arbitrary: db) (simp_all add: spentChallenge_apply_operation)

lemma spentChallenge_after_success:
  assumes "post_verify V now db ref cid sg = (Inr s, db')" and "getChallenge db cid = Some c"
  shows "spentChallenge cid (expiresAt c) db'"
  using assms
  by (auto simp: spentChallenge_def post_verify_def getChallenge_updateChallengeStatus Let_def
           split: option.splits sum.splits if_splits)

lemma post_verify_spent:
  assumes "spentChallenge cid e db"
  shows "fst (post_verify V now db ref cid sg) = Inl (if e < now then CHALLENGE_EXPIRED else CHALLENGE_USED)"
  using assms
  by (auto simp: spentChallenge_def post_verify_def split: option.splits)


lemma challenge_completed:
  "post_verify toyVerify 3000 challengeDB ''nexus'' ''ch_01'' ''ab01''
     = (Inr (Verified ''did:soul:nexus'' 3000), completedDB)"
proof -
  have "fst (post_verify toyVerify 3000 challengeDB ''nexus'' ''ch_01'' ''ab01'')
      = Inr (Verified ''did:soul:nexus'' 3000)"
    by code_simp
  then show ?thesis
    by (simp add: completedDB_def prod_eq_iff)
qed

lemma challenge_expiry: "map_option expiresAt (getChallenge challengeDB ''ch_01'') = Some 302000"
  by code_simp

text \<open>
  C5, as the code has it. After a successful completion of a challenge, whatever
  requests and sweeps follow, a further completion attempt on the same challenge id is
  never verified: it answers \<open>CHALLENGE_EXPIRED\<close> when the server's time is past the
  challenge's expiry and \<open>CHALLENGE_USED\<close> otherwise, for every signature and every
  subject reference.
\<close>

theorem completed_challenge_not_reusable:
  assumes "post_verify V t0 db ref cid sg = (Inr s, db1)"
  shows "\<exists>c. getChallenge db cid = Some c
       \<and> (\<forall>ops now ref' sg'.
             fst (post_verify V now (run_operations H V D db1 ops) ref' cid sg')
               = Inl (if expiresAt c < now then CHALLENGE_EXPIRED else CHALLENGE_USED))"
proof -
  from assms obtain c where c: "getChallenge db cid = Some c"
    by (auto simp: post_verify_def split: option.splits)
  have "spentChallenge cid (expiresAt c) db1"
    by (rule spentChallenge_after_success [OF assms c])
  then have "spentChallenge cid (expiresAt c) (run_operations H V D db1 ops)" for ops
    by (rule spentChallenge_run_operations)
  then have "fst (post_verify V now (run_operations H V D db1 ops) ref' cid sg')
               = Inl (if expiresAt c < now then CHALLENGE_EXPIRED else CHALLENGE_USED)" for ops now ref' sg'
    by (rule post_verify_spent)
  with c show ?thesis by blast
qed

theorem completed_challenge_not_reusable_witness:
  "post_verify toyVerify 3000 challengeDB ''nexus'' ''ch_01'' ''ab01''
     = (Inr (Verified ''did:soul:nexus'' 3000), completedDB)
   \<and> fst (post_verify toyVerify 7000
          (run_operations toyHash toyVerify toyParseDate completedDB
             [Sweep 100000, Verify 5000 ''nexus'' ''ch_01'' ''ffff'',
              IssueChallenge 6000 ''nexus'' ''ch_01'' ''aaaa''])
          ''nexus'' ''ch_01'' ''ab01'')
       = Inl CHALLENGE_USED
   \<and> fst (post_verify toyVerify 400000
          (run_operations toyHash toyVerify toyParseDate completedDB
             [Sweep 100000, Verify 5000 ''nexus'' ''ch_01'' ''ffff'',
              IssueChallenge 6000 ''nexus'' ''ch_01'' ''aaaa''])
          ''nexus'' ''ch_01'' ''ab01'')
       = Inl CHALLENGE_EXPIRED"
proof -
  let ?ops = "[Sweep 100000, Verify 5000 ''nexus'' ''ch_01'' ''ffff'',
              IssueChallenge 6000 ''nexus'' ''ch_01'' ''aaaa'']"
  from completed_challenge_not_reusable [OF challenge_completed, of toyHash toyParseDate]
  obtain c where c: "getChallenge challengeDB ''ch_01'' = Some c"
    and r: "\<And>ops now ref' sg'.
             fst (post_verify toyVerify now (run_operations toyHash toyVerify toyParseDate completedDB ops) ref' ''ch_01'' sg')
               = Inl (if expiresAt c < now then CHALLENGE_EXPIRED else CHALLENGE_USED)"
    by blast
  from c challenge_expiry have e: "expiresAt c = 302000" by simp
  from r [of 7000 ?ops "''nexus''" "''ab01''"] e
  have a: "fst (post_verify toyVerify 7000 (run_operations toyHash toyVerify toyParseDate completedDB ?ops)
             ''nexus'' ''ch_01'' ''ab01'') = Inl CHALLENGE_USED"
    by simp
  from r [of 400000 ?ops "''nexus''" "''ab01''"] e
  have b: "fst (post_verify toyVerify 400000 (run_operations toyHash toyVerify toyParseDate completedDB ?ops)
             ''nexus'' ''ch_01'' ''ab01'') = Inl CHALLENGE_EXPIRED"
    by simp
  from a b challenge_completed show ?thesis by blast
qed

text \<open>
  C5, as stated, fails once the challenge's window has passed: the expiry check comes
  before the reuse check, and the second attempt answers \<open>CHALLENGE_EXPIRED\<close>.
\<close>

theorem completed_challenge_expired_not_used:
  "fst (post_verify toyVerify 3000 challengeDB ''nexus'' ''ch_01'' ''ab01'')
     = Inr (Verified ''did:soul:nexus'' 3000)
   \<and> fst (post_verify toyVerify 400000
          (snd (post_verify toyVerify 3000 challengeDB ''nexus'' ''ch_01'' ''ab01''))
          ''nexus'' ''ch_01'' ''ab01'')
       = Inl CHALLENGE_EXPIRED"
  by code_simp

text \<open>
  C4. The challenge \<open>ch_01\<close> is issued (\<open>pending\<close>), completed at time 3000
  (\<open>completed\<close>), and expires at 302000. A verify attempt at time 400000 answers
  \<open>CHALLENGE_EXPIRED\<close> and writes \<open>expired\<close> over the status \<open>completed\<close>.
\<close>

theorem completed_status_overwritten:
  "map challengeStatus (challenges challengeDB) = [pending]
   \<and> map challengeStatus (challenges completedDB) = [completed]
   \<and> map expiresAt (challenges completedDB) = [302000]
   \<and> post_verify toyVerify 400000 completedDB ''nexus'' ''ch_01'' ''ab01''
       = (Inl CHALLENGE_EXPIRED, updateChallengeStatus completedDB ''ch_01'' expired)
   \<and> map challengeStatus
        (challenges (snd (post_verify toyVerify 400000 completedDB ''nexus'' ''ch_01'' ''ab01'')))
       = [expired]"
  by code_simp


end
